theory Spec2Isabelle
  imports Main "HOL-Library.AList"
begin

section \<open>Python strings\<close>

text \<open>
  A Python \<open>str\<close> is modelled as a \<open>string\<close>; a \<open>char\<close> stands for a code point
  below 256. \<open>str.isspace\<close> and the regular-expression class \<open>\s\<close> hold of the same
  code points in that range: 9 to 13, 28 to 32, 133 and 160.
\<close>

definition py_whitespace :: "char list" where
  "py_whitespace =
     [CHR 0x09, CHR 0x0A, CHR 0x0B, CHR 0x0C, CHR 0x0D, CHR 0x1C, CHR 0x1D, CHR 0x1E,
      CHR 0x1F, CHR 0x20, CHR 0x85, CHR 0xA0]"

definition py_isspace :: "char \<Rightarrow> bool" where
  "py_isspace c = (c \<in> set py_whitespace)"

text \<open>\<open>s.lstrip()\<close>, \<open>s.rstrip()\<close>, \<open>s.strip()\<close>: whitespace removed at the ends.\<close>

definition py_lstrip :: "string \<Rightarrow> string" where
  "py_lstrip s = dropWhile py_isspace s"

definition py_rstrip :: "string \<Rightarrow> string" where
  "py_rstrip s = rev (dropWhile py_isspace (rev s))"

definition py_strip :: "string \<Rightarrow> string" where
  "py_strip s = py_rstrip (py_lstrip s)"

text \<open>
  \<open>s.strip(chars)\<close>: every leading and every trailing character that occurs in
  \<open>chars\<close> is removed, however many there are.
\<close>

definition py_strip_chars :: "string \<Rightarrow> string \<Rightarrow> string" where
  "py_strip_chars chars s =
     rev (dropWhile (\<lambda>c. c \<in> set chars) (rev (dropWhile (\<lambda>c. c \<in> set chars) s)))"

text \<open>\<open>s.split(sep)\<close> for a separator of one character: always at least one piece.\<close>

fun py_split :: "char \<Rightarrow> string \<Rightarrow> string list" where
  "py_split sep [] = [[]]"
| "py_split sep (c # cs) =
     (if c = sep then [] # py_split sep cs
      else (case py_split sep cs of [] \<Rightarrow> [[c]] | w # ws \<Rightarrow> (c # w) # ws))"

text \<open>\<open>sep.join(items)\<close>.\<close>

fun py_join :: "string \<Rightarrow> string list \<Rightarrow> string" where
  "py_join sep [] = []"
| "py_join sep [x] = x"
| "py_join sep (x # y # ys) = x @ sep @ py_join sep (y # ys)"

text \<open>\<open>s.lower()\<close> on code points below 256: A to Z, and 192 to 222 except 215.\<close>

definition py_lower_char :: "char \<Rightarrow> char" where
  "py_lower_char c =
     (let n = (of_char c :: nat)
      in if (65 \<le> n \<and> n \<le> 90) \<or> (192 \<le> n \<and> n \<le> 222 \<and> n \<noteq> 215)
         then char_of (n + 32) else c)"

definition py_lower :: "string \<Rightarrow> string" where
  "py_lower s = map py_lower_char s"

fun py_startswith :: "string \<Rightarrow> string \<Rightarrow> bool" where
  "py_startswith s [] = True"
| "py_startswith [] (p # ps) = False"
| "py_startswith (c # cs) (p # ps) = (c = p \<and> py_startswith cs ps)"

section \<open>Normalisation of bracketed arrays (MultiLineConfigParser.read)\<close>

text \<open>
  \<open>array_pattern\<close> is
  \<^verbatim>\<open>^(?P<key>\s*[^=\s]+\s*=\s*)\[(?P<items>.*?)\]\<close> with \<open>DOTALL\<close> and \<open>MULTILINE\<close>.
  \<open>array_pattern_match s\<close> is the match of the part after \<open>^\<close> at the head of \<open>s\<close>:
  the groups \<open>key\<close> and \<open>items\<close>, and the text that follows the match. Each greedy
  piece is followed by a character outside its own class (\<open>\s*\<close> by a key character,
  by \<open>=\<close> or by \<open>[\<close>; the key by whitespace or \<open>=\<close>), so giving characters back
  never opens another match, and the lazy \<open>.*?\<close> ends at the first \<open>]\<close>.
\<close>

definition is_key_char :: "char \<Rightarrow> bool" where
  "is_key_char c = (c \<noteq> CHR ''='' \<and> \<not> py_isspace c)"

definition array_pattern_match :: "string \<Rightarrow> (string \<times> string \<times> string) option" where
  "array_pattern_match s =
     (let ws1 = takeWhile py_isspace s; r1 = dropWhile py_isspace s;
          name = takeWhile is_key_char r1; r2 = dropWhile is_key_char r1;
          ws2 = takeWhile py_isspace r2; r3 = dropWhile py_isspace r2;
          ws3 = takeWhile py_isspace (tl r3); r4 = dropWhile py_isspace (tl r3)
      in if name = [] then None
         else if r3 = [] \<or> hd r3 \<noteq> CHR ''='' then None
         else if r4 = [] \<or> hd r4 \<noteq> CHR ''['' then None
         else if CHR '']'' \<notin> set (tl r4) then None
         else Some (ws1 @ name @ ws2 @ [CHR ''=''] @ ws3,
                    takeWhile (\<lambda>c. c \<noteq> CHR '']'') (tl r4),
                    tl (dropWhile (\<lambda>c. c \<noteq> CHR '']'') (tl r4))))"

text \<open>
  \<open>_replace_array\<close>: the items between the brackets, and the replacement text. The
  separator of the join is written \<open>'\\n'\<close> inside the replacement field of the
  f-string, which Python accepts from version 3.12 on: a backslash followed by the
  letter n, two characters, not a line feed.
\<close>

definition array_items :: "string \<Rightarrow> string list" where
  "array_items items =
     map (\<lambda>item. py_strip_chars [CHR 0x27] (py_strip_chars [CHR 0x22] (py_strip item)))
       (filter (\<lambda>item. py_strip item \<noteq> []) (py_split CHR '','' items))"

definition replace_array :: "string \<Rightarrow> string \<Rightarrow> string" where
  "replace_array key items = key @ py_join [CHR 0x5C, CHR ''n''] (array_items items)"

lemma array_pattern_match_shorter:
  assumes "array_pattern_match s = Some (key, items, rest)"
  shows "length rest < length s"
proof -
  define r1 where "r1 = dropWhile py_isspace s"
  define r2 where "r2 = dropWhile is_key_char r1"
  define r3 where "r3 = dropWhile py_isspace r2"
  define r4 where "r4 = dropWhile py_isspace (tl r3)"
  from assms have rest: "rest = tl (dropWhile (\<lambda>c. c \<noteq> CHR '']'') (tl r4))"
    unfolding array_pattern_match_def Let_def r1_def r2_def r3_def r4_def
    by (simp split: if_splits)
  have "length rest \<le> length (dropWhile (\<lambda>c. c \<noteq> CHR '']'') (tl r4))"
    unfolding rest by simp
  also have "\<dots> \<le> length (tl r4)" by (rule length_dropWhile_le)
  also have "\<dots> \<le> length r4" by simp
  also have "\<dots> \<le> length (tl r3)" unfolding r4_def by (rule length_dropWhile_le)
  finally have "length rest \<le> length (tl r3)" .
  moreover from assms have "r3 \<noteq> []"
    unfolding array_pattern_match_def Let_def r1_def r2_def r3_def r4_def
    by (auto split: if_splits)
  ultimately have "length rest < length r3" by (cases r3) auto
  also have "length r3 \<le> length r2" unfolding r3_def by (rule length_dropWhile_le)
  also have "\<dots> \<le> length r1" unfolding r2_def by (rule length_dropWhile_le)
  also have "\<dots> \<le> length s" unfolding r1_def by (rule length_dropWhile_le)
  finally show ?thesis .
qed

text \<open>
  \<open>array_pattern.sub(_replace_array, content)\<close>: the scan goes left to right; \<open>bol\<close>
  says that the position is the start of the text or follows a line feed, where \<open>^\<close>
  matches. After a match the scan goes on behind the closing bracket.
\<close>

function array_pattern_sub :: "bool \<Rightarrow> string \<Rightarrow> string" where
  "array_pattern_sub bol [] = []"
| "array_pattern_sub bol (c # cs) =
     (case (if bol then array_pattern_match (c # cs) else None) of
        Some (key, items, rest) \<Rightarrow> replace_array key items @ array_pattern_sub False rest
      | None \<Rightarrow> c # array_pattern_sub (c = CHR 0x0A) cs)"
  by pat_completeness auto
termination
proof (relation "measure (\<lambda>(bol, s). length s)")
  show "wf (measure (\<lambda>(bol, s). length s))" by simp
next
  fix bol c cs x2 key y items rest
  assume "(if bol then array_pattern_match (c # cs) else None) = Some x2"
    and "(key, y) = x2" and "(items, rest) = y"
  then have "array_pattern_match (c # cs) = Some (key, items, rest)"
    by (auto split: if_splits)
  then show "((False, rest), (bol, c # cs)) \<in> measure (\<lambda>(bol, s). length s)"
    using array_pattern_match_shorter by fastforce
next
  fix bol c cs
  show "((c = CHR 0x0A, cs), (bol, c # cs)) \<in> measure (\<lambda>(bol, s). length s)" by simp
qed

definition normalize_arrays :: "string \<Rightarrow> string" where
  "normalize_arrays content = array_pattern_sub True content"

section \<open>Python values and exceptions\<close>

text \<open>
  The values an argument structure binds and a parser hands out: \<open>None\<close>, booleans,
  integers, strings and lists of strings, with Python's truth value of each.
\<close>

datatype pyval = PNone | PBool bool | PInt int | PStr string | PList "string list"

fun truthy :: "pyval \<Rightarrow> bool" where
  "truthy PNone = False"
| "truthy (PBool b) = b"
| "truthy (PInt n) = (n \<noteq> 0)"
| "truthy (PStr s) = (s \<noteq> [])"
| "truthy (PList xs) = (xs \<noteq> [])"

text \<open>
  The exceptions that occur. \<open>StopCollect\<close> and \<open>CollectError\<close> are the module's own
  classes, \<open>OtherException\<close> is any other subclass of \<open>Exception\<close>, and
  \<open>OtherBaseException\<close> any class outside \<open>Exception\<close> apart from
  \<open>KeyboardInterrupt\<close> and \<open>SystemExit\<close>.
\<close>

datatype py_error =
    TypeError | ValueError | KeyError | AttributeError
  | NoSectionError | NoOptionError
  | DuplicateSectionError | DuplicateOptionError | MissingSectionHeaderError | ParsingError
  | KeyboardInterrupt | SystemExit
  | CollectError | StopCollect
  | OtherException | OtherBaseException

definition is_Exception :: "py_error \<Rightarrow> bool" where
  "is_Exception e = (e \<noteq> KeyboardInterrupt \<and> e \<noteq> SystemExit \<and> e \<noteq> OtherBaseException)"

section \<open>The standard library's ConfigParser\<close>

text \<open>
  \<open>MultiLineConfigParser\<close> inherits from \<open>configparser.ConfigParser\<close>, which is not
  part of the repository. The definitions of this section follow
  \<open>Lib/configparser.py\<close> of CPython 3.12 for a parser built with no arguments:
  delimiters \<open>=\<close> and \<open>:\<close>, comment prefixes \<open>#\<close> and \<open>;\<close>, no inline comments,
  \<open>strict\<close>, no valueless options, empty lines kept in values, default section
  \<open>DEFAULT\<close>.
\<close>

type_synonym option_lines = "(string \<times> string list) list"

record read_state =
  rs_sections :: "(string \<times> option_lines) list"
  rs_defaults :: option_lines
  added_sections :: "string list"
  added_options :: "(string \<times> string) list"
  sectname :: "string option"
  optname :: "string option"
  indent_level :: nat
  parsing_error :: bool

record parser =
  sections :: "(string \<times> (string \<times> string) list) list"
  defaults :: "(string \<times> string) list"

definition default_section :: string where
  "default_section = ''DEFAULT''"

text \<open>
  \<open>cursect\<close> is the dictionary of the section named last: \<open>_defaults\<close> for the
  default section, the entry of \<open>_sections\<close> otherwise. It is \<open>None\<close> exactly as long
  as \<open>sectname\<close> is.
\<close>

definition cursect :: "read_state \<Rightarrow> option_lines option" where
  "cursect st =
     (case sectname st of
        None \<Rightarrow> None
      | Some name \<Rightarrow>
          (case map_of (rs_sections st) name of
             Some opts \<Rightarrow> Some opts
           | None \<Rightarrow> if name = default_section then Some (rs_defaults st) else None))"

definition set_cursect :: "read_state \<Rightarrow> option_lines \<Rightarrow> read_state" where
  "set_cursect st opts =
     (case sectname st of
        None \<Rightarrow> st
      | Some name \<Rightarrow>
          (case map_of (rs_sections st) name of
             Some old \<Rightarrow> st\<lparr>rs_sections := AList.update name opts (rs_sections st)\<rparr>
           | None \<Rightarrow> if name = default_section then st\<lparr>rs_defaults := opts\<rparr> else st))"

text \<open>\<open>cursect[optname].append(value)\<close>.\<close>

definition append_value :: "read_state \<Rightarrow> string \<Rightarrow> string \<Rightarrow> py_error + read_state" where
  "append_value st name v =
     (case cursect st of
        None \<Rightarrow> Inl TypeError
      | Some opts \<Rightarrow>
          (case map_of opts name of
             None \<Rightarrow> Inl KeyError
           | Some vs \<Rightarrow> Inr (set_cursect st (AList.update name (vs @ [v]) opts))))"

text \<open>
  \<open>SECTCRE\<close> is \<^verbatim>\<open>\[(?P<header>.+)\]\<close>, matched at the start of the stripped line:
  the greedy header runs to the last closing bracket and is not empty.
\<close>

definition SECTCRE_match :: "string \<Rightarrow> string option" where
  "SECTCRE_match v =
     (if v = [] \<or> hd v \<noteq> CHR ''['' \<or> CHR '']'' \<notin> set (tl v) then None
      else let header = rev (tl (dropWhile (\<lambda>c. c \<noteq> CHR '']'') (rev (tl v))))
           in if header = [] then None else Some header)"

text \<open>
  \<open>OPTCRE\<close> is \<^verbatim>\<open>(?P<option>.*?)\s*(?P<vi>=|:)\s*(?P<value>.*)$\<close>: the lazy option
  group ends before the whitespace in front of the first delimiter, and the value group
  is the rest of the line behind the delimiter and the whitespace after it. The result
  is the pair of the groups \<open>option\<close> and \<open>value\<close>.
\<close>

definition is_delimiter :: "char \<Rightarrow> bool" where
  "is_delimiter c = (c = CHR ''='' \<or> c = CHR '':'')"

definition OPTCRE_match :: "string \<Rightarrow> (string \<times> string) option" where
  "OPTCRE_match v =
     (let name_part = takeWhile (\<lambda>c. \<not> is_delimiter c) v;
          from_delim = dropWhile (\<lambda>c. \<not> is_delimiter c) v
      in if from_delim = [] then None
         else Some (py_rstrip name_part, py_lstrip (tl from_delim)))"

definition optionxform :: "string \<Rightarrow> string" where
  "optionxform optionstr = py_lower optionstr"

definition comment_prefixes :: "string list" where
  "comment_prefixes = [''#'', '';'']"

text \<open>\<open>NONSPACECRE.search(line)\<close>: the index of the first character that is not whitespace.\<close>

definition first_nonspace :: "string \<Rightarrow> nat option" where
  "first_nonspace line =
     (if list_all py_isspace line then None else Some (length (takeWhile py_isspace line)))"

text \<open>A line that names a section.\<close>

definition read_section_header :: "read_state \<Rightarrow> string \<Rightarrow> py_error + read_state" where
  "read_section_header st name =
     (if name \<in> set (map fst (rs_sections st)) then
        (if name \<in> set (added_sections st) then Inl DuplicateSectionError
         else Inr (st\<lparr>sectname := Some name, added_sections := name # added_sections st,
                       optname := None\<rparr>))
      else if name = default_section then Inr (st\<lparr>sectname := Some name, optname := None\<rparr>)
      else Inr (st\<lparr>rs_sections := rs_sections st @ [(name, [])], sectname := Some name,
                    added_sections := name # added_sections st, optname := None\<rparr>))"

text \<open>A line that the option pattern matches, with the groups \<open>option\<close> and \<open>value\<close>.\<close>

definition read_option :: "read_state \<Rightarrow> string \<Rightarrow> string \<Rightarrow> py_error + read_state" where
  "read_option st opt optval =
     (let st1 = (if opt = [] then st\<lparr>parsing_error := True\<rparr> else st);
          name = optionxform (py_rstrip opt)
      in case (sectname st1, cursect st1) of
           (Some sect, Some opts) \<Rightarrow>
             if (sect, name) \<in> set (added_options st1) then Inl DuplicateOptionError
             else Inr ((set_cursect st1 (AList.update name [py_strip optval] opts))
                         \<lparr>optname := Some name,
                          added_options := (sect, name) # added_options st1\<rparr>)
         | _ \<Rightarrow> Inl TypeError)"

text \<open>The body of the loop of \<open>_read\<close> for one line.\<close>

definition read_line :: "read_state \<Rightarrow> string \<Rightarrow> py_error + read_state" where
  "read_line st line =
     (let is_comment = list_ex (py_startswith (py_strip line)) comment_prefixes;
          v = (if is_comment then [] else py_strip line);
          has_optname = (case optname st of None \<Rightarrow> False | Some name \<Rightarrow> name \<noteq> [])
      in if v = [] then
           (if \<not> is_comment \<and> cursect st \<noteq> None \<and> has_optname
            then append_value st (the (optname st)) []
            else Inr st)
         else
           let cur_indent_level = (case first_nonspace line of None \<Rightarrow> 0 | Some n \<Rightarrow> n)
           in if cursect st \<noteq> None \<and> has_optname \<and> cur_indent_level > indent_level st
              then append_value st (the (optname st)) v
              else
                let st1 = st\<lparr>indent_level := cur_indent_level\<rparr>
                in case SECTCRE_match v of
                     Some header \<Rightarrow> read_section_header st1 header
                   | None \<Rightarrow>
                       if cursect st1 = None then Inl MissingSectionHeaderError
                       else (case OPTCRE_match v of
                               Some (opt, optval) \<Rightarrow> read_option st1 opt optval
                             | None \<Rightarrow> Inr (st1\<lparr>parsing_error := True\<rparr>)))"

fun read_lines :: "read_state \<Rightarrow> string list \<Rightarrow> py_error + read_state" where
  "read_lines st [] = Inr st"
| "read_lines st (line # rest) =
     (case read_line st line of Inl err \<Rightarrow> Inl err | Inr st' \<Rightarrow> read_lines st' rest)"

text \<open>Iterating over the text yields its lines, each with its line feed.\<close>

fun py_lines :: "string \<Rightarrow> string list" where
  "py_lines [] = []"
| "py_lines (c # cs) =
     (if c = CHR 0x0A then [c] # py_lines cs
      else (case py_lines cs of [] \<Rightarrow> [[c]] | l # ls \<Rightarrow> (c # l) # ls))"

text \<open>
  \<open>_join_multiline_values\<close>: the lines of a value joined by line feeds, whitespace
  removed at the end. \<open>before_read\<close> of the interpolation returns the value as it is.
\<close>

definition join_multiline_values :: "option_lines \<Rightarrow> (string \<times> string) list" where
  "join_multiline_values opts = map (\<lambda>(name, val). (name, py_rstrip (py_join [CHR 0x0A] val))) opts"

text \<open>The state of \<open>_read\<close> on entry, for a parser that has read nothing yet.\<close>

definition initial_read_state :: read_state where
  "initial_read_state =
     \<lparr>rs_sections = [], rs_defaults = [], added_sections = [], added_options = [],
      sectname = None, optname = None, indent_level = 0, parsing_error = False\<rparr>"

text \<open>
  \<open>read_string(string)\<close> on a new parser, that is \<open>_read\<close> on the lines of the text:
  the first exception raised in the loop ends the reading; a pending \<open>ParsingError\<close> is
  raised after the last line.
\<close>

definition read_string :: "string \<Rightarrow> py_error + parser" where
  "read_string text =
     (case read_lines initial_read_state (py_lines text) of
        Inl err \<Rightarrow> Inl err
      | Inr st \<Rightarrow>
          if parsing_error st then Inl ParsingError
          else Inr \<lparr>sections = map (\<lambda>(name, opts). (name, join_multiline_values opts))
                                  (rs_sections st),
                    defaults = join_multiline_values (rs_defaults st)\<rparr>)"

definition new_parser :: parser where
  "new_parser = \<lparr>sections = [], defaults = []\<rparr>"

definition has_section :: "parser \<Rightarrow> string \<Rightarrow> bool" where
  "has_section p section = (section \<in> set (map fst (sections p)))"

definition has_option :: "parser \<Rightarrow> string \<Rightarrow> string \<Rightarrow> bool" where
  "has_option p section option =
     (if section = [] \<or> section = default_section
      then optionxform option \<in> set (map fst (defaults p))
      else (case map_of (sections p) section of
              None \<Rightarrow> False
            | Some opts \<Rightarrow>
                optionxform option \<in> set (map fst opts)
                \<or> optionxform option \<in> set (map fst (defaults p))))"

text \<open>
  What \<open>get\<close> of a parser hands out: the string the parser holds, or in
  \<open>MultiLineConfigParser\<close> the list of its lines.
\<close>

datatype config_value = Scalar string | Sequence "string list"

text \<open>
  \<open>getboolean\<close> applies \<open>_convert_to_boolean\<close> to what \<open>self.get\<close> returns:
  \<open>value.lower()\<close> is looked up in \<open>BOOLEAN_STATES\<close>, and \<open>ValueError\<close> is raised when
  it is not there. A list has no method \<open>lower\<close>.
\<close>

definition BOOLEAN_STATES :: "(string \<times> bool) list" where
  "BOOLEAN_STATES =
     [(''1'', True), (''yes'', True), (''true'', True), (''on'', True),
      (''0'', False), (''no'', False), (''false'', False), (''off'', False)]"

definition convert_to_boolean :: "config_value \<Rightarrow> py_error + bool" where
  "convert_to_boolean v =
     (case v of
        Scalar s \<Rightarrow>
          (case map_of BOOLEAN_STATES (py_lower s) of
             None \<Rightarrow> Inl ValueError
           | Some b \<Rightarrow> Inr b)
      | Sequence lines \<Rightarrow> Inl AttributeError)"

section \<open>MultiLineConfigParser\<close>

text \<open>
  \<open>get\<close> calls \<open>super().get(section, option, raw, vars, fallback)\<close> with five
  positional arguments. The method it reaches is declared
  \<^verbatim>\<open>def get(self, section, option, *, raw=False, vars=None, fallback=_UNSET)\<close>:
  everything after \<open>option\<close> is keyword-only, so Python raises \<open>TypeError\<close>
  ("get() takes 3 positional arguments but 6 were given") while it binds the arguments,
  before the body runs and whatever the parser holds.
\<close>

definition super_get ::
  "parser \<Rightarrow> string \<Rightarrow> string \<Rightarrow> pyval \<Rightarrow> pyval \<Rightarrow> pyval \<Rightarrow> py_error + string" where
  "super_get p section option raw vars fallback = Inl TypeError"

text \<open>\<open>MultiLineConfigParser.get\<close>: a value with a line feed is returned as the list of its lines.\<close>

definition MultiLineConfigParser_get ::
  "parser \<Rightarrow> string \<Rightarrow> string \<Rightarrow> pyval \<Rightarrow> pyval \<Rightarrow> pyval \<Rightarrow> py_error + config_value" where
  "MultiLineConfigParser_get p section option raw vars fallback =
     (case super_get p section option raw vars fallback of
        Inl err \<Rightarrow> Inl err
      | Inr v \<Rightarrow>
          if CHR 0x0A \<in> set v then Inr (Sequence (py_split CHR 0x0A v)) else Inr (Scalar v))"

text \<open>
  \<open>getboolean\<close> goes through \<open>_get_conv\<close> and \<open>_get\<close> to
  \<open>conv(self.get(section, option, raw=False, vars=None))\<close>, where \<open>self.get\<close> is the
  method above; \<open>NoSectionError\<close> and \<open>NoOptionError\<close> are raised again, since no
  fallback is given.
\<close>

definition getboolean :: "parser \<Rightarrow> string \<Rightarrow> string \<Rightarrow> py_error + bool" where
  "getboolean p section option =
     (case MultiLineConfigParser_get p section option (PBool False) PNone PNone of
        Inl err \<Rightarrow> Inl err
      | Inr v \<Rightarrow> convert_to_boolean v)"

text \<open>
  \<open>MultiLineConfigParser.read\<close> on one file name. \<open>open_file\<close> is the file system:
  the text of a file, or \<open>None\<close> for a file that cannot be opened. Then the fallback
  \<open>super().read\<close> fails to open it as well and skips it, and the parser stays empty.
\<close>

definition MultiLineConfigParser_read ::
  "(string \<Rightarrow> string option) \<Rightarrow> string \<Rightarrow> py_error + parser" where
  "MultiLineConfigParser_read open_file filename =
     (case open_file filename of
        None \<Rightarrow> Inr new_parser
      | Some content \<Rightarrow> read_string (normalize_arrays content))"

section \<open>Locating the configuration file\<close>

text \<open>
  The plugin \<open>CollectConfig\<close>. \<open>pytest_cmdline_main\<close> receives the configuration
  file the runner resolved (\<open>None\<close> when there is none), records it and raises
  \<open>StopCollect\<close>.
\<close>

record CollectConfig =
  path :: "string option"

definition pytest_cmdline_main ::
  "CollectConfig \<Rightarrow> string option \<Rightarrow> CollectConfig \<times> (py_error + unit)" where
  "pytest_cmdline_main self inifile =
     (case inifile of
        None \<Rightarrow> (self, Inr ())
      | Some f \<Rightarrow> (self\<lparr>path := Some f\<rparr>, Inl StopCollect))"

text \<open>
  The test runner is outside the module. One run of \<open>pytest.main\<close> is described by
  whether it reaches the hook (and with which configuration file), and by how it ends
  when the hook returns: with an exception or with an exit code. An exception of the
  hook leaves \<open>pytest.main\<close>.
\<close>

datatype pytest_run = pytest_run (hook_call: "string option option") (completion: "py_error + int")

definition pytest_main :: "pytest_run \<Rightarrow> CollectConfig \<Rightarrow> CollectConfig \<times> (py_error + int)" where
  "pytest_main run plugin =
     (case hook_call run of
        None \<Rightarrow> (plugin, completion run)
      | Some inifile \<Rightarrow>
          (case pytest_cmdline_main plugin inifile of
             (plugin', Inl err) \<Rightarrow> (plugin', Inl err)
           | (plugin', Inr u) \<Rightarrow> (plugin', completion run)))"

text \<open>
  What the module takes from outside: the exit codes of \<open>constants.py\<close> (not among the
  sources, so they are parameters), the runner's behaviour for an argument list at the
  first and at the second call of one merge, and the file system.
\<close>

record environment =
  EXIT_OK :: int
  EXIT_INTERRUPTED :: int
  EXIT_NOTESTSCOLLECTED :: int
  pytest_runs :: "string list \<Rightarrow> nat \<Rightarrow> pytest_run"
  open_file :: "string \<Rightarrow> string option"

definition run_pytest_collect :: "environment \<Rightarrow> string list \<Rightarrow> nat \<Rightarrow> py_error + string option" where
  "run_pytest_collect env pytest_args attempt =
     (let collect_config_plugin = \<lparr>path = None\<rparr>;
          argv = pytest_args @ [''--collect-only'']
      in case pytest_main (pytest_runs env argv attempt) collect_config_plugin of
           (plugin, Inl err) \<Rightarrow> if err = StopCollect then Inr (path plugin) else Inl err
         | (plugin, Inr exit_code) \<Rightarrow>
             if exit_code = EXIT_INTERRUPTED env then Inl KeyboardInterrupt
             else if exit_code \<notin> set [EXIT_OK env, EXIT_NOTESTSCOLLECTED env] then Inl CollectError
             else Inr (path plugin))"

text \<open>
  \<open>_collect_config\<close>: the silenced attempt, and after any exception that
  \<open>except (KeyboardInterrupt, Exception, SystemExit)\<close> catches, one more attempt.
  \<open>silence()\<close> and the printed notices change no value and are left out.
\<close>

definition collect_config :: "environment \<Rightarrow> string list \<Rightarrow> bool \<Rightarrow> py_error + string option" where
  "collect_config env pytest_args silent =
     (if silent then
        (case run_pytest_collect env pytest_args 0 of
           Inr p \<Rightarrow> Inr p
         | Inl err \<Rightarrow>
             if err = KeyboardInterrupt \<or> is_Exception err \<or> err = SystemExit
             then run_pytest_collect env pytest_args 1
             else Inl err)
      else run_pytest_collect env pytest_args 0)"

section \<open>Merging the configuration into the arguments\<close>

text \<open>
  The argument structure is a dictionary from option names to values, here an
  association list; the lists it binds are taken to be bound to one key each. The
  merge changes it in place, so the model returns the structure as the call leaves it
  together with the result: an exception or the returned boolean.
\<close>

type_synonym arguments = "(string \<times> pyval) list"

definition CLI_OPTION_PREFIX :: string where
  "CLI_OPTION_PREFIX = ''--''"

definition config_section :: string where
  "config_section = ''pytest-watch''"

text \<open>A value of the parser as a value of the argument structure.\<close>

fun to_pyval :: "config_value \<Rightarrow> pyval" where
  "to_pyval (Scalar s) = PStr s"
| "to_pyval (Sequence lines) = PList lines"

text \<open>The body of the loop of \<open>merge_config\<close> for one key.\<close>

definition merge_option :: "parser \<Rightarrow> string \<Rightarrow> arguments \<Rightarrow> arguments \<times> (py_error + unit)" where
  "merge_option config cli_name args =
     (if \<not> py_startswith cli_name CLI_OPTION_PREFIX then (args, Inr ())
      else
        let config_name = drop (length CLI_OPTION_PREFIX) cli_name
        in case map_of args cli_name of
             None \<Rightarrow> (args, Inl KeyError)
           | Some current \<Rightarrow>
               if truthy current then (args, Inr ())
               else if \<not> has_option config config_section config_name then (args, Inr ())
               else
                 (case current of
                    PList xs \<Rightarrow>
                      (case MultiLineConfigParser_get config config_section config_name
                              (PBool False) PNone PNone of
                         Inl err \<Rightarrow> (args, Inl err)
                       | Inr (Sequence vs) \<Rightarrow>
                           (AList.update cli_name (PList (xs @ vs)) args, Inr ())
                       | Inr (Scalar v) \<Rightarrow>
                           (AList.update cli_name (PList (xs @ [v])) args, Inr ()))
                  | PBool b \<Rightarrow>
                      (case getboolean config config_section config_name of
                         Inl err \<Rightarrow> (args, Inl err)
                       | Inr b' \<Rightarrow> (AList.update cli_name (PBool b') args, Inr ()))
                  | other \<Rightarrow>
                      (case MultiLineConfigParser_get config config_section config_name
                              (PBool False) PNone PNone of
                         Inl err \<Rightarrow> (args, Inl err)
                       | Inr v \<Rightarrow> (AList.update cli_name (to_pyval v) args, Inr ()))))"

fun merge_loop :: "parser \<Rightarrow> string list \<Rightarrow> arguments \<Rightarrow> arguments \<times> (py_error + unit)" where
  "merge_loop config [] args = (args, Inr ())"
| "merge_loop config (cli_name # names) args =
     (case merge_option config cli_name args of
        (args', Inl err) \<Rightarrow> (args', Inl err)
      | (args', Inr u) \<Rightarrow> merge_loop config names args')"

definition merge_config ::
  "environment \<Rightarrow> arguments \<Rightarrow> string list \<Rightarrow> bool \<Rightarrow> bool \<Rightarrow> arguments \<times> (py_error + bool)" where
  "merge_config env args pytest_args silent verbose =
     (case collect_config env pytest_args silent of
        Inl err \<Rightarrow>
          if err = KeyboardInterrupt \<or> err = CollectError then (args, Inr False)
          else (args, Inl err)
      | Inr None \<Rightarrow> (args, Inr True)
      | Inr (Some config_path) \<Rightarrow>
          if config_path = [] then (args, Inr True)
          else
            (case MultiLineConfigParser_read (open_file env) config_path of
               Inl err \<Rightarrow> (args, Inl err)
             | Inr config \<Rightarrow>
                 if \<not> has_section config config_section then (args, Inr True)
                 else
                   (case merge_loop config (map fst args) args of
                      (args', Inl err) \<Rightarrow> (args', Inl err)
                    | (args', Inr u) \<Rightarrow> (args', Inr True))))"

section \<open>The reading of the specification for array items\<close>



section \<open>Searching for a bracketed array\<close>

text \<open>
  \<open>array_pattern.search(content)\<close> finds a match: some position where \<open>^\<close> matches
  and the rest of the pattern does.
\<close>

fun array_pattern_search :: "bool \<Rightarrow> string \<Rightarrow> bool" where
  "array_pattern_search bol [] = False"
| "array_pattern_search bol (c # cs) =
     ((bol \<and> array_pattern_match (c # cs) \<noteq> None) \<or> array_pattern_search (c = CHR 0x0A) cs)"

section \<open>An interrupted run, and concrete surroundings\<close>

text \<open>
  The dry invocation of an attempt completes with the exit code for an interruption:
  \<open>pytest.main\<close> returns it, the plugin having raised nothing.
\<close>

definition exits_interrupted :: "environment \<Rightarrow> string list \<Rightarrow> nat \<Rightarrow> bool" where
  "exits_interrupted env pytest_args attempt =
     (snd (pytest_main (pytest_runs env (pytest_args @ [''--collect-only'']) attempt)
             \<lparr>path = None\<rparr>)
        = Inr (EXIT_INTERRUPTED env))"

text \<open>
  Surroundings to evaluate the merge in, with the exit codes of pytest (0 for ok, 2 for
  interrupted, 5 for no tests collected). In \<open>scenario_env content\<close> the runner
  resolves \<open>setup.cfg\<close> as its configuration file, and the file holds \<open>content\<close>. In
  \<open>scenario_exit exit_code\<close> the runner has no configuration file and every run
  returns \<open>exit_code\<close>.
\<close>

definition scenario_env :: "string \<Rightarrow> environment" where
  "scenario_env content =
     \<lparr>EXIT_OK = 0, EXIT_INTERRUPTED = 2, EXIT_NOTESTSCOLLECTED = 5,
      pytest_runs = (\<lambda>argv attempt. pytest_run (Some (Some ''setup.cfg'')) (Inr 0)),
      open_file = (\<lambda>name. if name = ''setup.cfg'' then Some content else None)\<rparr>"

definition scenario_exit :: "int \<Rightarrow> environment" where
  "scenario_exit exit_code =
     \<lparr>EXIT_OK = 0, EXIT_INTERRUPTED = 2, EXIT_NOTESTSCOLLECTED = 5,
      pytest_runs = (\<lambda>argv attempt. pytest_run (Some None) (Inr exit_code)),
      open_file = (\<lambda>name. None)\<rparr>"

section \<open>Normalisation leaves other content alone\<close>

lemma array_pattern_sub_no_match:
  "\<not> array_pattern_search bol content \<Longrightarrow> array_pattern_sub bol content = content"
proof (induction content arbitrary: bol)
  case Nil
  show ?case by simp
next
  case (Cons c cs)
  from Cons.prems have none: "(if bol then array_pattern_match (c # cs) else None) = None"
    and rest: "\<not> array_pattern_search (c = CHR 0x0A) cs"
    by (cases "array_pattern_match (c # cs)"; simp)+
  from Cons.IH [OF rest] none show ?case by simp
qed

lemma array_pattern_match_needs_bracket:
  assumes "array_pattern_match s = Some r"
  shows "CHR ''['' \<in> set s"
proof -
  define r1 where "r1 = dropWhile py_isspace s"
  define r2 where "r2 = dropWhile is_key_char r1"
  define r3 where "r3 = dropWhile py_isspace r2"
  define r4 where "r4 = dropWhile py_isspace (tl r3)"
  from assms have "r4 \<noteq> []" "hd r4 = CHR ''[''"
    unfolding array_pattern_match_def Let_def r1_def r2_def r3_def r4_def
    by (auto split: if_splits)
  then have "CHR ''['' \<in> set r4" by (cases r4) auto
  then have "CHR ''['' \<in> set (tl r3)" unfolding r4_def by (rule set_dropWhileD)
  then have "CHR ''['' \<in> set r3" by (cases r3) auto
  then have "CHR ''['' \<in> set r2" unfolding r3_def by (rule set_dropWhileD)
  then have "CHR ''['' \<in> set r1" unfolding r2_def by (rule set_dropWhileD)
  then show ?thesis unfolding r1_def by (rule set_dropWhileD)
qed

lemma no_bracket_no_search:
  "CHR ''['' \<notin> set content \<Longrightarrow> \<not> array_pattern_search bol content"
proof (induction content arbitrary: bol)
  case Nil
  then show ?case by simp
next
  case (Cons c cs)
  have "array_pattern_match (c # cs) = None"
  proof (cases "array_pattern_match (c # cs)")
    case None
    then show ?thesis .
  next
    case (Some r)
    then have "CHR ''['' \<in> set (c # cs)" by (rule array_pattern_match_needs_bracket)
    with Cons.prems show ?thesis by simp
  qed
  moreover from Cons have "\<not> array_pattern_search (c = CHR 0x0A) cs" by simp
  ultimately show ?case by simp
qed

text \<open>
  Claim C10. Normalising content in which the pattern of a bracketed array matches
  nowhere returns the content as it is.
\<close>

theorem normalize_arrays_noop:
  "\<not> array_pattern_search True content \<Longrightarrow> normalize_arrays content = content"
  unfolding normalize_arrays_def by (rule array_pattern_sub_no_match)

text \<open>The section of the scenario, written with the native continuation lines.\<close>

theorem normalize_arrays_noop_witness:
  "\<not> array_pattern_search True ''[pytest-watch]\<newline>ignore = a\<newline>    b\<newline>''
   \<and> normalize_arrays ''[pytest-watch]\<newline>ignore = a\<newline>    b\<newline>''
       = ''[pytest-watch]\<newline>ignore = a\<newline>    b\<newline>''"
proof -
  have h: "\<not> array_pattern_search True ''[pytest-watch]\<newline>ignore = a\<newline>    b\<newline>''"
    by (simp add: array_pattern_match_def py_isspace_def py_whitespace_def is_key_char_def)
  from h normalize_arrays_noop [OF h] show ?thesis by (rule conjI)
qed

section \<open>The items of a bracketed array\<close>


















section \<open>What the merge leaves as it is\<close>

lemma update_present_keys:
  "map_of al k = Some v \<Longrightarrow> map fst (AList.update k w al) = map fst al"
  by (induction al) (auto split: if_splits)

lemma merge_option_keys: "map fst (fst (merge_option config cli_name args)) = map fst args"
  unfolding merge_option_def Let_def
  by (auto simp: update_present_keys split: option.splits pyval.splits sum.splits config_value.splits)

lemma merge_loop_keys: "map fst (fst (merge_loop config names args)) = map fst args"
proof (induction names arbitrary: args)
  case Nil
  show ?case by simp
next
  case (Cons cli_name names)
  obtain args' r where step: "merge_option config cli_name args = (args', r)"
    by (cases "merge_option config cli_name args")
  then have keys: "map fst args' = map fst args"
    using merge_option_keys [of config cli_name args] by simp
  show ?case
  proof (cases r)
    case (Inl err)
    with step keys show ?thesis by simp
  next
    case (Inr u)
    with step keys Cons.IH [of args'] show ?thesis by simp
  qed
qed

lemma merge_option_truthy:
  assumes "map_of args k = Some v" "truthy v"
  shows "map_of (fst (merge_option config cli_name args)) k = Some v"
proof (cases "k = cli_name")
  case True
  with assms show ?thesis unfolding merge_option_def Let_def by simp
next
  case False
  with assms show ?thesis unfolding merge_option_def Let_def
    by (auto simp: update_conv' split: option.splits pyval.splits sum.splits config_value.splits)
qed

lemma merge_loop_truthy:
  assumes "map_of args k = Some v" "truthy v"
  shows "map_of (fst (merge_loop config names args)) k = Some v"
  using assms
proof (induction names arbitrary: args)
  case Nil
  then show ?case by simp
next
  case (Cons cli_name names)
  obtain args' r where step: "merge_option config cli_name args = (args', r)"
    by (cases "merge_option config cli_name args")
  then have kept: "map_of args' k = Some v"
    using merge_option_truthy [OF Cons.prems, of config cli_name] by simp
  show ?case
  proof (cases r)
    case (Inl err)
    with step kept show ?thesis by simp
  next
    case (Inr u)
    with step kept Cons.IH [OF kept Cons.prems(2)] show ?thesis by simp
  qed
qed

lemma merge_config_cases:
  "fst (merge_config env args pytest_args silent verbose) = args
   \<or> (\<exists>config. fst (merge_config env args pytest_args silent verbose)
         = fst (merge_loop config (map fst args) args))"
proof (cases "collect_config env pytest_args silent")
  case (Inl err)
  then show ?thesis unfolding merge_config_def by simp
next
  case (Inr found)
  show ?thesis
  proof (cases found)
    case None
    with Inr show ?thesis unfolding merge_config_def by simp
  next
    case (Some config_path)
    show ?thesis
    proof (cases "MultiLineConfigParser_read (open_file env) config_path")
      case (Inl err)
      with Inr Some show ?thesis unfolding merge_config_def by simp
    next
      case read: (Inr config)
      have "fst (merge_config env args pytest_args silent verbose) = args
          \<or> fst (merge_config env args pytest_args silent verbose)
              = fst (merge_loop config (map fst args) args)"
        using Inr Some read unfolding merge_config_def
        by (cases "merge_loop config (map fst args) args") (auto split: sum.splits)
      then show ?thesis by blast
    qed
  qed
qed

text \<open>
  Claim C8. Whatever the surroundings and however the merge ends, the argument
  structure has the keys it had, in the order it had them.
\<close>

theorem merge_config_keys:
  "map fst (fst (merge_config env args pytest_args silent verbose)) = map fst args"
  using merge_config_cases [of env args pytest_args silent verbose] merge_loop_keys by metis

text \<open>
  Claim C6. An option bound to a value that counts as true keeps that value, whatever
  the configuration section holds and however the merge ends.
\<close>

theorem merge_config_truthy:
  assumes "map_of args cli_name = Some v" "truthy v"
  shows "map_of (fst (merge_config env args pytest_args silent verbose)) cli_name = Some v"
  using merge_config_cases [of env args pytest_args silent verbose]
    merge_loop_truthy [OF assms] assms(1) by metis

text \<open>A flag given on the command line, with a section that sets it to false.\<close>

theorem merge_config_truthy_witness:
  "map_of [(''--ignore'', PList [''x'']), (''--nobeep'', PBool True)] ''--nobeep'' = Some (PBool True)
   \<and> truthy (PBool True)
   \<and> map_of (fst (merge_config (scenario_env ''[pytest-watch]\<newline>nobeep = false\<newline>'')
          [(''--ignore'', PList [''x'']), (''--nobeep'', PBool True)] [] True False)) ''--nobeep''
       = Some (PBool True)"
proof -
  have h1: "map_of [(''--ignore'', PList [''x'']), (''--nobeep'', PBool True)] ''--nobeep''
      = Some (PBool True)" by simp
  have h2: "truthy (PBool True)" by simp
  from h1 h2 merge_config_truthy [OF h1 h2] show ?thesis by blast
qed

section \<open>Lists given on the command line\<close>

text \<open>
  Claim C2, as the code has it. A list that is not empty counts as true, so the merge
  passes it over: it stays as the command line gave it, and nothing of the section is
  added to it.
\<close>

theorem merge_config_keeps_nonempty_list:
  assumes "map_of args cli_name = Some (PList xs)" and "xs \<noteq> []"
  shows "map_of (fst (merge_config env args pytest_args silent verbose)) cli_name = Some (PList xs)"
proof -
  from assms(2) have "truthy (PList xs)" by simp
  with assms(1) merge_loop_truthy [of args cli_name "PList xs"]
    merge_config_cases [of env args pytest_args silent verbose]
  show ?thesis by metis
qed

theorem merge_config_keeps_nonempty_list_witness:
  "map_of [(''--ignore'', PList [''x''])] ''--ignore'' = Some (PList [''x''])
   \<and> [''x''] \<noteq> []
   \<and> map_of (fst (merge_config (scenario_env ''[pytest-watch]\<newline>ignore = y\<newline>    z\<newline>'')
          [(''--ignore'', PList [''x''])] [] True False)) ''--ignore''
       = Some (PList [''x''])"
proof -
  have h1: "map_of [(''--ignore'', PList [''x''])] ''--ignore'' = Some (PList [''x''])" by simp
  have h2: "[''x''] \<noteq> []" by simp
  from h1 h2 merge_config_keeps_nonempty_list [OF h1 h2] show ?thesis by blast
qed

text \<open>
  Claim C2 as stated fails: the section holds the lines \<open>y\<close> and \<open>z\<close> for
  \<open>ignore\<close>, the command line gave \<open>x\<close>, and the merge returns true with the list
  still \<open>x\<close> alone.
\<close>

theorem merge_config_accumulate_counterexample:
  "read_string ''[pytest-watch]\<newline>ignore = y\<newline>    z\<newline>''
     = Inr \<lparr>sections = [(''pytest-watch'', [(''ignore'', ''y\<newline>z'')])], defaults = []\<rparr>
   \<and> merge_config (scenario_env ''[pytest-watch]\<newline>ignore = y\<newline>    z\<newline>'')
       [(''--ignore'', PList [''x''])] [] True False
     = ([(''--ignore'', PList [''x''])], Inr True)"
  by code_simp

section \<open>Nothing to merge\<close>



section \<open>An interrupted discovery\<close>

lemma run_pytest_collect_interrupted:
  "exits_interrupted env pytest_args attempt \<Longrightarrow>
     run_pytest_collect env pytest_args attempt = Inl KeyboardInterrupt"
  unfolding exits_interrupted_def run_pytest_collect_def Let_def
  by (cases "pytest_main (pytest_runs env (pytest_args @ [''--collect-only'']) attempt) \<lparr>path = None\<rparr>")
     auto

text \<open>
  Claim C9. When the dry invocation completes with the exit code for an interruption,
  at the first attempt and, if the output is silenced, at the attempt that follows it,
  the merge returns false and leaves the argument structure as it was.
\<close>

theorem merge_config_interrupted:
  assumes first: "exits_interrupted env pytest_args 0"
    and second: "silent \<Longrightarrow> exits_interrupted env pytest_args 1"
  shows "merge_config env args pytest_args silent verbose = (args, Inr False)"
proof -
  have "collect_config env pytest_args silent = Inl KeyboardInterrupt"
  proof (cases silent)
    case True
    with first second show ?thesis
      unfolding collect_config_def by (simp add: run_pytest_collect_interrupted)
  next
    case False
    with first show ?thesis
      unfolding collect_config_def by (simp add: run_pytest_collect_interrupted)
  qed
  then show ?thesis unfolding merge_config_def by simp
qed

theorem merge_config_interrupted_witness:
  "exits_interrupted (scenario_exit 2) [''tests''] 0
   \<and> exits_interrupted (scenario_exit 2) [''tests''] 1
   \<and> merge_config (scenario_exit 2) [(''--ignore'', PList [])] [''tests''] True False
       = ([(''--ignore'', PList [])], Inr False)"
proof -
  have h0: "exits_interrupted (scenario_exit 2) [''tests''] 0" by code_simp
  have h1: "exits_interrupted (scenario_exit 2) [''tests''] 1" by code_simp
  from h0 h1 merge_config_interrupted [where silent = True and verbose = False
      and args = "[(''--ignore'', PList [])]", OF h0 h1]
  show ?thesis by simp
qed

section \<open>The spellings of a boolean\<close>



section \<open>Which errors the merge lets through\<close>

text \<open>
  Claim C5, as the code has it. An interruption or a collection error of the
  discovery makes the merge return false. An exception raised while the file is read,
  and an exception raised in the loop over the options, is not caught: the merge ends
  with it.
\<close>

theorem merge_config_error_policy:
  "(collect_config env1 pytest_args1 silent1 = Inl err1
      \<and> (err1 = KeyboardInterrupt \<or> err1 = CollectError)
      \<longrightarrow> merge_config env1 args1 pytest_args1 silent1 verbose1 = (args1, Inr False))
   \<and> (collect_config env2 pytest_args2 silent2 = Inr (Some config_path2) \<and> config_path2 \<noteq> []
      \<and> MultiLineConfigParser_read (open_file env2) config_path2 = Inl err2
      \<longrightarrow> merge_config env2 args2 pytest_args2 silent2 verbose2 = (args2, Inl err2))
   \<and> (collect_config env3 pytest_args3 silent3 = Inr (Some config_path3) \<and> config_path3 \<noteq> []
      \<and> MultiLineConfigParser_read (open_file env3) config_path3 = Inr config3
      \<and> has_section config3 config_section
      \<and> merge_loop config3 (map fst args3) args3 = (args3', Inl err3)
      \<longrightarrow> merge_config env3 args3 pytest_args3 silent3 verbose3 = (args3', Inl err3))"
  unfolding merge_config_def by auto

text \<open>
  A run that ends with exit code 1, a file that names a section twice, and a section
  with a value for a flag.
\<close>

theorem merge_config_error_policy_witness:
  "collect_config (scenario_exit 1) [] True = Inl CollectError
   \<and> merge_config (scenario_exit 1) [(''--ignore'', PList [])] [] True False
       = ([(''--ignore'', PList [])], Inr False)
   \<and> MultiLineConfigParser_read
         (open_file (scenario_env ''[pytest-watch]\<newline>[pytest-watch]\<newline>'')) ''setup.cfg''
       = Inl DuplicateSectionError
   \<and> merge_config (scenario_env ''[pytest-watch]\<newline>[pytest-watch]\<newline>'')
         [(''--ignore'', PList [])] [] True False
       = ([(''--ignore'', PList [])], Inl DuplicateSectionError)
   \<and> merge_loop \<lparr>sections = [(''pytest-watch'', [(''nobeep'', ''maybe'')])], defaults = []\<rparr>
         [''--nobeep''] [(''--nobeep'', PBool False)]
       = ([(''--nobeep'', PBool False)], Inl TypeError)
   \<and> merge_config (scenario_env ''[pytest-watch]\<newline>nobeep = maybe\<newline>'')
         [(''--nobeep'', PBool False)] [] True False
       = ([(''--nobeep'', PBool False)], Inl TypeError)"
proof -
  let ?args = "[(''--ignore'', PList [])]"
  let ?env2 = "scenario_env ''[pytest-watch]\<newline>[pytest-watch]\<newline>''"
  let ?env3 = "scenario_env ''[pytest-watch]\<newline>nobeep = maybe\<newline>''"
  let ?config3 = "\<lparr>sections = [(''pytest-watch'', [(''nobeep'', ''maybe'')])], defaults = []\<rparr>"
  let ?args3 = "[(''--nobeep'', PBool False)]"
  have a1: "collect_config (scenario_exit 1) [] True = Inl CollectError" by code_simp
  have b1: "collect_config ?env2 [] True = Inr (Some ''setup.cfg'')" by code_simp
  have b2: "MultiLineConfigParser_read (open_file ?env2) ''setup.cfg'' = Inl DuplicateSectionError"
    by code_simp
  have c1: "collect_config ?env3 [] True = Inr (Some ''setup.cfg'')" by code_simp
  have c2: "MultiLineConfigParser_read (open_file ?env3) ''setup.cfg'' = Inr ?config3" by code_simp
  have c3: "has_section ?config3 config_section" by code_simp
  have c4: "merge_loop ?config3 (map fst ?args3) ?args3 = (?args3, Inl TypeError)" by code_simp
  have c5: "merge_loop ?config3 [''--nobeep''] ?args3 = (?args3, Inl TypeError)" by code_simp
  have nonempty: "''setup.cfg'' \<noteq> []" by simp
  note policy = merge_config_error_policy [where
      ?env1.0 = "scenario_exit 1" and ?pytest_args1.0 = "[]" and ?silent1.0 = True
      and ?err1.0 = CollectError and ?args1.0 = ?args and ?verbose1.0 = False
      and ?env2.0 = ?env2 and ?pytest_args2.0 = "[]" and ?silent2.0 = True
      and ?config_path2.0 = "''setup.cfg''" and ?err2.0 = DuplicateSectionError
      and ?args2.0 = ?args and ?verbose2.0 = False
      and ?env3.0 = ?env3 and ?pytest_args3.0 = "[]" and ?silent3.0 = True
      and ?config_path3.0 = "''setup.cfg''" and ?config3.0 = ?config3
      and ?args3.0 = ?args3 and ?args3' = ?args3 and ?err3.0 = TypeError and ?verbose3.0 = False]
  from policy a1 have r1: "merge_config (scenario_exit 1) ?args [] True False = (?args, Inr False)"
    by blast
  from policy b1 b2 nonempty
  have r2: "merge_config ?env2 ?args [] True False = (?args, Inl DuplicateSectionError)"
    by blast
  from policy c1 c2 c3 c4 nonempty
  have r3: "merge_config ?env3 ?args3 [] True False = (?args3, Inl TypeError)"
    by blast
  from a1 r1 b2 r2 c5 r3 show ?thesis by blast
qed

text \<open>
  Claim C5 as stated fails: a file whose first line is an option, with no section
  named before it, makes the merge end with \<open>MissingSectionHeaderError\<close>.
\<close>

theorem merge_config_raises_counterexample:
  "merge_config (scenario_env ''ignore = a\<newline>'') [(''--ignore'', PList [])] [] True False
     = ([(''--ignore'', PList [])], Inl MissingSectionHeaderError)"
  by code_simp

section \<open>The array dialect and the native continuation\<close>

text \<open>
  Once the loop reaches an option that the section defines, the call of \<open>get\<close> ends
  the merge with \<open>TypeError\<close>, whatever the type of the argument.
\<close>

lemma merge_option_reaches_get:
  assumes "py_startswith cli_name CLI_OPTION_PREFIX"
    and "map_of args cli_name = Some v" and "\<not> truthy v"
    and "has_option config config_section (drop (length CLI_OPTION_PREFIX) cli_name)"
  shows "merge_option config cli_name args = (args, Inl TypeError)"
  using assms unfolding merge_option_def Let_def
  by (cases v) (simp_all add: MultiLineConfigParser_get_def super_get_def getboolean_def)

text \<open>
  Claim C1. The claim holds of the intent and not of the code. For the file of the
  scenario and \<open>--ignore\<close> bound to the empty list, the merge ends with \<open>TypeError\<close>
  and the list is still empty. The array \<open>[a, b, c]\<close> is stored as one line with the
  two characters backslash and n between the items, the continuation lines as three
  lines; and \<open>get\<close> on the latter raises \<open>TypeError\<close> where the sequence is expected.
\<close>

theorem merge_config_array_bug:
  \<open>merge_config (scenario_env ''[pytest-watch]\<newline>ignore = [ "a", "b" ]'')
       [(''--ignore'', PList [])] [] True False
     = ([(''--ignore'', PList [])], Inl TypeError)
   \<and> read_string (normalize_arrays ''[pytest-watch]\<newline>ignore = [a, b, c]\<newline>'')
     = Inr \<lparr>sections = [(''pytest-watch'',
               [(''ignore'', [CHR ''a'', CHR 0x5C, CHR ''n'', CHR ''b'', CHR 0x5C, CHR ''n'', CHR ''c''])])],
             defaults = []\<rparr>
   \<and> read_string ''[pytest-watch]\<newline>ignore = a\<newline>    b\<newline>    c\<newline>''
     = Inr \<lparr>sections = [(''pytest-watch'', [(''ignore'', ''a\<newline>b\<newline>c'')])], defaults = []\<rparr>
   \<and> MultiLineConfigParser_get
         \<lparr>sections = [(''pytest-watch'', [(''ignore'', ''a\<newline>b\<newline>c'')])], defaults = []\<rparr>
         ''pytest-watch'' ''ignore'' (PBool False) PNone PNone
     = Inl TypeError\<close>
  by code_simp

end
